theory Spec2Isabelle
  imports Complex_Main "HOL-Library.Sublist" "HOL-Library.Multiset"
begin

section \<open>Strings\<close>

text \<open>
  Python \<open>str\<close> values are modelled as \<open>string\<close> (a list of 8-bit characters)
  holding the UTF-8 encoding of the text. Substring search and replacement on the
  encoding agree with Python's on code points. The character classes below are
  those of Python's \<open>re\<close> on ASCII text; every byte above 127 is taken as part of
  a word.
\<close>

datatype py_error = ReError | ZeroDivisionError | TranslationError

definition is_digit :: "char \<Rightarrow> bool" where
  "is_digit c = (c \<in> set ''0123456789'')"

definition is_word :: "char \<Rightarrow> bool" where
  "is_word c =
     (c \<in> set ''abcdefghijklmnopqrstuvwxyzABCDEFGHIJKLMNOPQRSTUVWXYZ0123456789_''
      \<or> 128 \<le> (of_char c :: nat))"

definition is_space :: "char \<Rightarrow> bool" where
  "is_space c =
     (c \<in> set [CHR '' '', CHR 0x09, CHR 0x0A, CHR 0x0B, CHR 0x0C, CHR 0x0D,
                CHR 0x1C, CHR 0x1D, CHR 0x1E, CHR 0x1F])"

text \<open>
  \<open>str.replace(old, new)\<close>: every non-overlapping occurrence of \<open>old\<close>, found
  from the left, becomes \<open>new\<close>; an empty \<open>old\<close> matches before every character
  and at the end.
\<close>

fun replace_nonempty :: "string \<Rightarrow> string \<Rightarrow> string \<Rightarrow> string" where
  "replace_nonempty old new [] = []"
| "replace_nonempty old new (c # cs) =
     (if prefix old (c # cs)
      then new @ replace_nonempty old new (drop (length old - 1) cs)
      else c # replace_nonempty old new cs)"

definition str_replace :: "string \<Rightarrow> string \<Rightarrow> string \<Rightarrow> string" where
  "str_replace s old new =
     (if old = [] then new @ concat (map (\<lambda>c. c # new) s)
      else replace_nonempty old new s)"

text \<open>\<open>str(n)\<close> for a non-negative integer.\<close>

definition digit_char :: "nat \<Rightarrow> char" where
  "digit_char d = ''0123456789'' ! d"

fun str_of_nat :: "nat \<Rightarrow> string" where
  "str_of_nat n =
     (if n < 10 then [digit_char n]
      else str_of_nat (n div 10) @ [digit_char (n mod 10)])"

text \<open>\<open>str.strip()\<close> and the whitespace collapse \<open>re.sub(r"\s+", " ", text)\<close>.\<close>

definition strip :: "string \<Rightarrow> string" where
  "strip s = rev (dropWhile is_space (rev (dropWhile is_space s)))"

fun collapse_from :: "bool \<Rightarrow> string \<Rightarrow> string" where
  "collapse_from in_run [] = []"
| "collapse_from in_run (c # cs) =
     (if is_space c then (if in_run then collapse_from True cs
                          else CHR '' '' # collapse_from True cs)
      else c # collapse_from False cs)"

definition collapse_ws :: "string \<Rightarrow> string" where
  "collapse_ws s = collapse_from False s"

section \<open>TextProcessor\<close>

text \<open>
  \<open>DICE_PATTERN = \b(\d+d\d+(?:\s*[+-]\s*\d+)?)\b\<close>, case-insensitive. A compiled
  pattern enters \<open>protect_expressions\<close> only through \<open>findall\<close>, so a pattern is
  modelled by its \<open>findall\<close> function. \<open>dice_match_at s\<close> is the length of the
  match that starts at the head of \<open>s\<close>: the digit runs are greedy and cannot be
  shortened (the next character would again be a digit), so the only choice is
  whether the optional modifier group is part of the match.
\<close>

type_synonym re_pattern = "string \<Rightarrow> string list"

definition boundary_after :: "string \<Rightarrow> bool" where
  "boundary_after r = (case r of [] \<Rightarrow> True | c # _ \<Rightarrow> \<not> is_word c)"

definition dice_modifier :: "string \<Rightarrow> nat option" where
  "dice_modifier r3 =
     (let ws1 = takeWhile is_space r3; r4 = dropWhile is_space r3
      in case r4 of
           [] \<Rightarrow> None
         | sg # r5 \<Rightarrow>
             if sg = CHR ''+'' \<or> sg = CHR ''-'' then
               (let ws2 = takeWhile is_space r5; r6 = dropWhile is_space r5;
                    ds3 = takeWhile is_digit r6; r7 = dropWhile is_digit r6
                in if ds3 \<noteq> [] \<and> boundary_after r7
                   then Some (length ws1 + 1 + length ws2 + length ds3) else None)
             else None)"

definition dice_match_at :: "string \<Rightarrow> nat option" where
  "dice_match_at s =
     (let ds1 = takeWhile is_digit s; r1 = dropWhile is_digit s
      in if ds1 = [] then None
         else case r1 of
             [] \<Rightarrow> None
           | d # r2 \<Rightarrow>
               if d = CHR ''d'' \<or> d = CHR ''D'' then
                 (let ds2 = takeWhile is_digit r2; r3 = dropWhile is_digit r2
                  in if ds2 = [] then None
                     else case dice_modifier r3 of
                         Some k \<Rightarrow> Some (length ds1 + 1 + length ds2 + k)
                       | None \<Rightarrow>
                           if boundary_after r3 then Some (length ds1 + 1 + length ds2)
                           else None)
               else None)"

text \<open>
  The scan: \<open>skip\<close> characters of a match just found are still to be passed over,
  \<open>pw\<close> tells whether the previous character is a word character.
\<close>

fun dice_scan :: "nat \<Rightarrow> bool \<Rightarrow> string \<Rightarrow> string list" where
  "dice_scan skip pw [] = []"
| "dice_scan skip pw (c # cs) =
     (if 0 < skip then dice_scan (skip - 1) (is_word c) cs
      else case (if pw then None else dice_match_at (c # cs)) of
          Some n \<Rightarrow> take n (c # cs) # dice_scan (n - 1) (is_word c) cs
        | None \<Rightarrow> dice_scan 0 (is_word c) cs)"

definition DICE_PATTERN :: re_pattern where
  "DICE_PATTERN text = dice_scan 0 False text"

text \<open>\<open>ENCODING_FIXES\<close>, in the order of the dictionary literal (UTF-8 bytes).\<close>

definition ENCODING_FIXES :: "(string \<times> string) list" where
  "ENCODING_FIXES =
     [([CHR 0xC3, CHR 0xA2, CHR 0xE2, CHR 0x82, CHR 0xAC, CHR 0xE2, CHR 0x84, CHR 0xA2], [CHR 0x27]),
      ([CHR 0xC3, CHR 0xA2, CHR 0xE2, CHR 0x82, CHR 0xAC, CHR 0xC5, CHR 0x93], [CHR 0x22]),
      ([CHR 0xC3, CHR 0xA2, CHR 0xE2, CHR 0x82, CHR 0xAC], [CHR 0x22]),
      ([CHR 0xC3, CHR 0x83, CHR 0xC2, CHR 0xA9], [CHR 0xC3, CHR 0xA9]),
      ([CHR 0xC3, CHR 0x83, CHR 0x20], [CHR 0xC3, CHR 0xA0]),
      ([CHR 0xC3, CHR 0x83, CHR 0xC2, CHR 0xA7], [CHR 0xC3, CHR 0xA7]),
      ([CHR 0xC3, CHR 0x83, CHR 0xC2, CHR 0xA8], [CHR 0xC3, CHR 0xA8]),
      ([CHR 0xC3, CHR 0x83, CHR 0xC2, CHR 0xB4], [CHR 0xC3, CHR 0xB4])]"

definition clean_encoding :: "string \<Rightarrow> string" where
  "clean_encoding text =
     (if text = [] then text
      else foldl (\<lambda>result (bad, good). str_replace result bad good) text ENCODING_FIXES)"

definition normalize_whitespace :: "string \<Rightarrow> string" where
  "normalize_whitespace text = (if text = [] then text else strip (collapse_ws text))"

text \<open>
  \<open>protect_expressions\<close>: the placeholder of match \<open>j\<close> of pattern \<open>i\<close> is
  \<open>__PROTECTED_i_j__\<close>; the matches are those on the original text, the replacement
  runs on the text protected so far. \<open>protections\<close> is a dictionary, kept as an
  association list in insertion order.
\<close>

definition placeholder :: "nat \<Rightarrow> nat \<Rightarrow> string" where
  "placeholder i j = ''__PROTECTED_'' @ str_of_nat i @ ''_'' @ str_of_nat j @ ''__''"

type_synonym protections = "(string \<times> string) list"

fun dict_set :: "'k \<Rightarrow> 'v \<Rightarrow> ('k \<times> 'v) list \<Rightarrow> ('k \<times> 'v) list" where
  "dict_set k v [] = [(k, v)]"
| "dict_set k v ((k', v') # d) =
     (if k' = k then (k, v) # d else (k', v') # dict_set k v d)"

fun protect_matches ::
  "nat \<Rightarrow> nat \<Rightarrow> string list \<Rightarrow> string \<times> protections \<Rightarrow> string \<times> protections" where
  "protect_matches i j [] acc = acc"
| "protect_matches i j (m # ms) (protected_text, prots) =
     protect_matches i (Suc j) ms
       (str_replace protected_text m (placeholder i j), dict_set (placeholder i j) m prots)"

fun protect_patterns ::
  "string \<Rightarrow> nat \<Rightarrow> re_pattern list \<Rightarrow> string \<times> protections \<Rightarrow> string \<times> protections" where
  "protect_patterns text i [] acc = acc"
| "protect_patterns text i (p # ps) acc =
     protect_patterns text (Suc i) ps (protect_matches i 0 (p text) acc)"

definition protect_expressions :: "string \<Rightarrow> re_pattern list \<Rightarrow> string \<times> protections" where
  "protect_expressions text patterns = protect_patterns text 0 patterns (text, [])"

fun restore_expressions :: "string \<Rightarrow> protections \<Rightarrow> string" where
  "restore_expressions text [] = text"
| "restore_expressions text ((ph, original) # prots) =
     restore_expressions (str_replace text ph original) prots"

section \<open>The regular-expression engine and the external services\<close>

text \<open>
  \<open>re.sub(pattern, replacement, text, flags=re.IGNORECASE)\<close> belongs to Python's
  library: it is a parameter of the model, a function that returns the rewritten
  text or fails with \<open>re.error\<close>. The machine-translation call
  \<open>translate_text(text, source_lang, target_lang)\<close> and the HTTP exchange with the
  LLM service are parameters too; a translation call that raises is \<open>Inl\<close>, an
  exchange that raises or is not \<open>ok\<close> is \<open>None\<close>.
\<close>

type_synonym re_engine = "string \<Rightarrow> string \<Rightarrow> string \<Rightarrow> py_error + string"
type_synonym mt_service = "string \<Rightarrow> string \<Rightarrow> string \<Rightarrow> py_error + string"
type_synonym llm_service = "string \<Rightarrow> string \<Rightarrow> string \<Rightarrow> string option"

text \<open>\<open>re.escape\<close>: a backslash before each character of the special set.\<close>

definition re_special :: "char list" where
  "re_special = ''()[]{}?*+-|^$.&~# '' @
     [CHR 0x5C, CHR 0x09, CHR 0x0A, CHR 0x0D, CHR 0x0B, CHR 0x0C]"

definition re_escape :: "string \<Rightarrow> string" where
  "re_escape s = concat (map (\<lambda>c. if c \<in> set re_special then [CHR 0x5C, c] else [c]) s)"

definition word_bounded :: "string \<Rightarrow> string" where
  "word_bounded s = [CHR 0x5C, CHR ''b''] @ re_escape s @ [CHR 0x5C, CHR ''b'']"

text \<open>
  An engine for literal patterns, on which the model is evaluated at concrete
  inputs. It is \<open>re.sub\<close> with \<open>re.IGNORECASE\<close> for the patterns made of literal
  characters, escaped punctuation and \<open>\b\<close>, with a replacement free of
  backslashes. Every other pattern is rejected with \<open>re.error\<close>, as Python
  rejects an unbalanced parenthesis or a trailing backslash.
\<close>

datatype re_tok = Lit char | WordB

definition re_meta :: "char list" where
  "re_meta = ''.^$*+?{}[]|()''"

definition is_alnum :: "char \<Rightarrow> bool" where
  "is_alnum c = (c \<in> set ''abcdefghijklmnopqrstuvwxyzABCDEFGHIJKLMNOPQRSTUVWXYZ0123456789'')"

definition lower :: "char \<Rightarrow> char" where
  "lower c =
     (case map_of (zip ''ABCDEFGHIJKLMNOPQRSTUVWXYZ'' ''abcdefghijklmnopqrstuvwxyz'') c of
        Some l \<Rightarrow> l
      | None \<Rightarrow> c)"

fun re_parse :: "bool \<Rightarrow> string \<Rightarrow> re_tok list option" where
  "re_parse esc [] = (if esc then None else Some [])"
| "re_parse esc (c # cs) =
     (if esc then
        (if c = CHR ''b'' then map_option (Cons WordB) (re_parse False cs)
         else if is_alnum c then None
         else map_option (Cons (Lit c)) (re_parse False cs))
      else if c = CHR 0x5C then re_parse True cs
      else if c \<in> set re_meta then None
      else map_option (Cons (Lit c)) (re_parse False cs))"

fun match_toks :: "bool \<Rightarrow> re_tok list \<Rightarrow> string \<Rightarrow> nat option" where
  "match_toks pw [] s = Some 0"
| "match_toks pw (WordB # ts) s =
     (if pw \<noteq> (case s of [] \<Rightarrow> False | c # _ \<Rightarrow> is_word c) then match_toks pw ts s else None)"
| "match_toks pw (Lit a # ts) s =
     (case s of
        [] \<Rightarrow> None
      | c # cs \<Rightarrow> if lower a = lower c then map_option Suc (match_toks (is_word c) ts cs) else None)"

fun sub_scan :: "re_tok list \<Rightarrow> string \<Rightarrow> nat \<Rightarrow> bool \<Rightarrow> string \<Rightarrow> string" where
  "sub_scan ts repl skip pw [] = []"
| "sub_scan ts repl skip pw (c # cs) =
     (if 0 < skip then sub_scan ts repl (skip - 1) (is_word c) cs
      else case match_toks pw ts (c # cs) of
          Some (Suc n) \<Rightarrow> repl @ sub_scan ts repl n (is_word c) cs
        | _ \<Rightarrow> c # sub_scan ts repl 0 (is_word c) cs)"

definition re_sub_literal :: re_engine where
  "re_sub_literal pat repl text =
     (case re_parse False pat of
        None \<Rightarrow> Inl ReError
      | Some ts \<Rightarrow>
          if list_all (\<lambda>t. t = WordB) ts \<or> CHR 0x5C \<in> set repl then Inl ReError
          else Inr (sub_scan ts repl 0 False text))"

section \<open>TranslationCache and RuleEngine\<close>

record TranslationCache =
  cache_map :: "string \<rightharpoonup> string"
  hits :: nat
  misses :: nat

definition cache_get :: "TranslationCache \<Rightarrow> string \<Rightarrow> string option \<times> TranslationCache" where
  "cache_get c key =
     (case cache_map c key of
        Some v \<Rightarrow> (Some v, c\<lparr>hits := hits c + 1\<rparr>)
      | None \<Rightarrow> (None, c\<lparr>misses := misses c + 1\<rparr>))"

definition cache_set :: "TranslationCache \<Rightarrow> string \<Rightarrow> string \<Rightarrow> TranslationCache" where
  "cache_set c key v = c\<lparr>cache_map := (cache_map c)(key \<mapsto> v)\<rparr>"

type_synonym rule_table = "string \<rightharpoonup> (string \<times> string) list"

fun apply_rule_list :: "re_engine \<Rightarrow> (string \<times> string) list \<Rightarrow> string \<Rightarrow> string" where
  "apply_rule_list re [] result = result"
| "apply_rule_list re ((pat, repl) # rs) result =
     (case re pat repl result of
        Inr r \<Rightarrow> apply_rule_list re rs r
      | Inl e \<Rightarrow> apply_rule_list re rs result)"

definition RuleEngine_apply_rules :: "re_engine \<Rightarrow> rule_table \<Rightarrow> string \<Rightarrow> string \<Rightarrow> string" where
  "RuleEngine_apply_rules re rules text stg =
     (if text = [] then text
      else case rules stg of None \<Rightarrow> text | Some rs \<Rightarrow> apply_rule_list re rs text)"

definition add_rule :: "rule_table \<Rightarrow> string \<Rightarrow> string \<Rightarrow> string \<Rightarrow> rule_table" where
  "add_rule rules stg pat repl =
     (case rules stg of
        None \<Rightarrow> rules(stg \<mapsto> [(pat, repl)])
      | Some rs \<Rightarrow> rules(stg \<mapsto> rs @ [(pat, repl)]))"

section \<open>The glossary\<close>

text \<open>
  In \<open>glossary_manager.py\<close> the body of \<open>class GlossaryManager\<close> is its docstring
  alone: \<open>learn_from_llm_improvement\<close> starts at column 0 right after it, and
  \<open>__init__\<close>, \<open>get_glossary\<close>, \<open>add_terms\<close> and the others are indented under that
  function, after its \<open>return\<close>. An instance of the class therefore has no
  \<open>get_glossary\<close> attribute. \<open>_apply_glossary\<close> takes any object; one that does
  have the method is \<open>GlossaryProvider g\<close>, with \<open>g\<close> the dictionary it returns.
\<close>

datatype glossary_object = GlossaryManager | GlossaryProvider "(string \<times> string) list"

definition get_glossary_attr :: "glossary_object \<Rightarrow> (string \<times> string) list option" where
  "get_glossary_attr gm = (case gm of GlossaryManager \<Rightarrow> None | GlossaryProvider g \<Rightarrow> Some g)"

text \<open>
  \<open>len\<close> counts code points: the bytes that are not UTF-8 continuation bytes.
  \<open>get_glossary\<close> is the function of lines 72 to 74, on the dictionary
  \<open>self._glossary\<close>: the items sorted by descending length of the term, the sort
  being stable.
\<close>

definition py_len :: "string \<Rightarrow> nat" where
  "py_len s = length (filter (\<lambda>c. \<not> (128 \<le> (of_char c :: nat) \<and> (of_char c :: nat) < 192)) s)"

definition get_glossary :: "(string \<times> string) list \<Rightarrow> (string \<times> string) list" where
  "get_glossary g = sort_key (\<lambda>x. - int (py_len (fst x))) g"

fun glossary_loop :: "re_engine \<Rightarrow> (string \<times> string) list \<Rightarrow> string \<Rightarrow> py_error + string" where
  "glossary_loop re [] result = Inr result"
| "glossary_loop re ((term, translation) # g) result =
     (case re (word_bounded term) translation result of
        Inl e \<Rightarrow> Inl e
      | Inr r \<Rightarrow> glossary_loop re g r)"

definition apply_glossary :: "re_engine \<Rightarrow> glossary_object \<Rightarrow> string \<Rightarrow> py_error + string" where
  "apply_glossary re gm text =
     (case get_glossary_attr gm of
        None \<Rightarrow> Inr text
      | Some glossary \<Rightarrow> glossary_loop re glossary text)"

section \<open>DeepLTranslator.process_text\<close>

record TranslationConfig =
  source_lang :: string
  target_lang :: string
  use_llm_optimization :: bool
  emit_loca_files :: bool
  clear_cache :: bool
  parallel_translation :: bool
  max_workers :: nat

record DeepLTranslator =
  config :: TranslationConfig
  rule_engine :: rule_table
  glossary_manager :: "glossary_object option"
  cache :: TranslationCache

definition str_of_bool :: "bool \<Rightarrow> string" where
  "str_of_bool b = (if b then ''True'' else ''False'')"

definition optimize_with_llm :: "llm_service \<Rightarrow> string \<Rightarrow> string \<Rightarrow> string \<Rightarrow> string" where
  "optimize_with_llm post source translation api_key =
     (case post source translation api_key of
        Some content \<Rightarrow> strip content
      | None \<Rightarrow> translation)"

text \<open>The text handed to the translation service: protection, pre-stage rules, glossary.\<close>

definition pre_translation_text ::
  "re_engine \<Rightarrow> DeepLTranslator \<Rightarrow> string \<Rightarrow> py_error + string" where
  "pre_translation_text re self cleaned =
     (let (protected, prots) = protect_expressions cleaned [DICE_PATTERN];
          preprocessed = RuleEngine_apply_rules re (rule_engine self) protected ''pre_translation''
      in case glossary_manager self of
           None \<Rightarrow> Inr preprocessed
         | Some gm \<Rightarrow> apply_glossary re gm preprocessed)"

text \<open>The body of the \<open>try\<close> block; \<open>Inl\<close> is an exception that reaches \<open>except\<close>.\<close>

definition translate_body ::
  "re_engine \<Rightarrow> mt_service \<Rightarrow> llm_service \<Rightarrow> DeepLTranslator \<Rightarrow> string \<Rightarrow> string option
     \<Rightarrow> py_error + string" where
  "translate_body re mt post self cleaned openrouter_key =
     (let (protected, prots) = protect_expressions cleaned [DICE_PATTERN]
      in case pre_translation_text re self cleaned of
           Inl e \<Rightarrow> Inl e
         | Inr preprocessed \<Rightarrow>
             (case mt preprocessed (source_lang (config self)) (target_lang (config self)) of
                Inl e \<Rightarrow> Inl e
              | Inr translated0 \<Rightarrow>
                  (let translated1 =
                         RuleEngine_apply_rules re (rule_engine self) translated0 ''post_translation'';
                       translated2 =
                         (case openrouter_key of
                            Some k \<Rightarrow>
                              if use_llm_optimization (config self) \<and> k \<noteq> []
                              then optimize_with_llm post cleaned translated1 k
                              else translated1
                          | None \<Rightarrow> translated1);
                       final0 =
                         RuleEngine_apply_rules re (rule_engine self) translated2 ''final_cleanup''
                   in Inr (restore_expressions final0 prots))))"

definition cache_key_of :: "DeepLTranslator \<Rightarrow> string \<Rightarrow> string" where
  "cache_key_of self cleaned =
     cleaned @ ''_'' @ str_of_bool (use_llm_optimization (config self))"

text \<open>
  \<open>process_text\<close>; \<open>openrouter_key\<close> is \<open>context.get("openrouter_key")\<close>, \<open>None\<close>
  when there is no context or no such key. A cached value counts only when it is
  not the empty string.
\<close>

definition process_text ::
  "re_engine \<Rightarrow> mt_service \<Rightarrow> llm_service \<Rightarrow> DeepLTranslator \<Rightarrow> string \<Rightarrow> string option
     \<Rightarrow> string \<times> DeepLTranslator" where
  "process_text re mt post self text openrouter_key =
     (if text = [] \<or> strip text = [] then (text, self)
      else
        (let cleaned = normalize_whitespace (clean_encoding text);
             cache_key = cache_key_of self cleaned;
             (cached_result, cache1) = cache_get (cache self) cache_key;
             self1 = self\<lparr>cache := cache1\<rparr>
         in if cached_result \<noteq> None \<and> cached_result \<noteq> Some []
            then (case cached_result of Some v \<Rightarrow> (v, self1) | None \<Rightarrow> (text, self1))
            else
              (case translate_body re mt post self cleaned openrouter_key of
                 Inr final_result \<Rightarrow>
                   (final_result, self1\<lparr>cache := cache_set cache1 cache_key final_result\<rparr>)
               | Inl e \<Rightarrow> (text, self1))))"

section \<open>DynamicRulesManager: rules and their application\<close>

text \<open>
  Python floats are modelled as real numbers; the properties below depend on
  their order and on the products and quotients of the source only.
\<close>

record Rule =
  name :: string
  pattern :: string
  replacement :: string
  description :: string
  stage :: string
  confidence :: real
  usage_count :: int
  success_rate :: real
  created_at :: "string option"
  mod_specific :: "string option"

record LearningCandidate =
  source_text :: string
  original_translation :: string
  improved_translation :: string
  improvement_source :: string
  cand_confidence :: real
  frequency :: int
  detected_pattern :: "string option"
  suggested_replacement :: "string option"

record LearningConfig =
  enabled :: bool
  auto_improve :: bool
  confidence_threshold :: real
  max_learned_rules :: nat
  min_frequency_for_pattern :: int
  similarity_threshold :: real

text \<open>
  The three rule stores are \<open>defaultdict(list)\<close>: a stage that was never written
  reads as the empty list. \<open>learned_rules_file\<close> is the content last written to
  the learned-rules file.
\<close>

record DynamicRulesManager =
  base_rules :: "string \<Rightarrow> Rule list"
  learned_rules :: "string \<Rightarrow> Rule list"
  mod_specific_rules :: "string \<rightharpoonup> (string \<Rightarrow> Rule list)"
  learning_candidates :: "LearningCandidate list"
  learning_config :: LearningConfig
  learned_rules_file :: "((string \<Rightarrow> Rule list) \<times> LearningCandidate list) option"

text \<open>
  \<open>get_applicable_rules\<close> returns a fresh list of references to the rule objects
  of the stores. A reference names the store, the stage and the position; the
  list pairs each reference with the rule it points to. \<open>list.sort\<close> with
  \<open>reverse=True\<close> keeps the order of equal keys, as \<open>sort_key\<close> on the negated key
  does.
\<close>

datatype rule_ref = BaseRule string nat | LearnedRule string nat | ModRule string string nat

definition tag_rules :: "(nat \<Rightarrow> rule_ref) \<Rightarrow> Rule list \<Rightarrow> (rule_ref \<times> Rule) list" where
  "tag_rules mk rules = zip (map mk [0..<length rules]) rules"

definition mod_rules_for :: "DynamicRulesManager \<Rightarrow> string \<Rightarrow> string option \<Rightarrow> (rule_ref \<times> Rule) list" where
  "mod_rules_for st stg mod_name =
     (case mod_name of
        None \<Rightarrow> []
      | Some m \<Rightarrow>
          if m = [] then []
          else (case mod_specific_rules st m of
                  None \<Rightarrow> []
                | Some d \<Rightarrow> tag_rules (ModRule m stg) (d stg)))"

definition applicable_entries ::
  "DynamicRulesManager \<Rightarrow> string \<Rightarrow> string option \<Rightarrow> (rule_ref \<times> Rule) list" where
  "applicable_entries st stg mod_name =
     sort_key (\<lambda>e. - confidence (snd e))
       (tag_rules (BaseRule stg) (base_rules st stg)
        @ tag_rules (LearnedRule stg) (learned_rules st stg)
        @ mod_rules_for st stg mod_name)"

definition get_applicable_rules :: "DynamicRulesManager \<Rightarrow> string \<Rightarrow> string option \<Rightarrow> Rule list" where
  "get_applicable_rules st stg mod_name = map snd (applicable_entries st stg mod_name)"

fun update_at :: "nat \<Rightarrow> ('a \<Rightarrow> 'a) \<Rightarrow> 'a list \<Rightarrow> 'a list" where
  "update_at i f [] = []"
| "update_at 0 f (x # xs) = f x # xs"
| "update_at (Suc i) f (x # xs) = x # update_at i f xs"


definition bump_usage :: "Rule \<Rightarrow> Rule" where
  "bump_usage r = r\<lparr>usage_count := usage_count r + 1\<rparr>"

definition penalize :: "Rule \<Rightarrow> Rule" where
  "penalize r = r\<lparr>success_rate := success_rate r * 0.9\<rparr>"




text \<open>
  Reading the rule behind a reference, and the relation between a rule before and
  after \<open>apply_rules\<close>: every field but \<open>usage_count\<close> and \<open>success_rate\<close> is the
  same. \<open>rules_frame\<close> lifts it to the stores, position by position.
\<close>

definition nth_opt :: "'a list \<Rightarrow> nat \<Rightarrow> 'a option" where
  "nth_opt xs i = (if i < length xs then Some (xs ! i) else None)"


definition same_identity :: "Rule \<Rightarrow> Rule \<Rightarrow> bool" where
  "same_identity r r' =
     (name r' = name r \<and> pattern r' = pattern r \<and> replacement r' = replacement r
      \<and> description r' = description r \<and> stage r' = stage r \<and> confidence r' = confidence r
      \<and> created_at r' = created_at r \<and> mod_specific r' = mod_specific r)"

definition rules_frame :: "DynamicRulesManager \<Rightarrow> DynamicRulesManager \<Rightarrow> bool" where
  "rules_frame st st' =
     ((\<forall>stg. list_all2 same_identity (base_rules st stg) (base_rules st' stg))
      \<and> (\<forall>stg. list_all2 same_identity (learned_rules st stg) (learned_rules st' stg))
      \<and> (\<forall>m. rel_option (\<lambda>d d'. \<forall>stg. list_all2 same_identity (d stg) (d' stg))
                (mod_specific_rules st m) (mod_specific_rules st' m))
      \<and> learning_candidates st' = learning_candidates st
      \<and> learning_config st' = learning_config st
      \<and> learned_rules_file st' = learned_rules_file st)"

section \<open>DynamicRulesManager: eviction and persistence\<close>

definition rule_score :: "Rule \<Rightarrow> real" where
  "rule_score rule = confidence rule * (1 + real_of_int (usage_count rule)) * success_rate rule"

definition cleanup_stage :: "nat \<Rightarrow> Rule list \<Rightarrow> Rule list" where
  "cleanup_stage max_rules rules =
     (if length rules > max_rules
      then take max_rules (sort_key (\<lambda>r. - rule_score r) rules)
      else rules)"

definition cleanup_learned_rules :: "DynamicRulesManager \<Rightarrow> DynamicRulesManager" where
  "cleanup_learned_rules st =
     st\<lparr>learned_rules :=
          (\<lambda>stg. cleanup_stage (max_learned_rules (learning_config st)) (learned_rules st stg))\<rparr>"

text \<open>
  \<open>save_learned_rules\<close>: eviction first, then the write; \<open>io_ok\<close> tells whether the
  write succeeds. A failed write is caught and reported by the result \<open>False\<close>.
\<close>

definition save_learned_rules :: "bool \<Rightarrow> DynamicRulesManager \<Rightarrow> bool \<times> DynamicRulesManager" where
  "save_learned_rules io_ok st =
     (let st1 = cleanup_learned_rules st
      in if io_ok
         then (True, st1\<lparr>learned_rules_file := Some (learned_rules st1, learning_candidates st1)\<rparr>)
         else (False, st1))"

section \<open>DynamicRulesManager: learning\<close>

text \<open>
  \<open>str.split()\<close> without arguments: the maximal runs of characters that are not
  whitespace.
\<close>

fun split_from :: "string \<Rightarrow> string \<Rightarrow> string list" where
  "split_from cur [] = (if cur = [] then [] else [cur])"
| "split_from cur (c # cs) =
     (if is_space c then (if cur = [] then split_from [] cs else cur # split_from [] cs)
      else split_from (cur @ [c]) cs)"

definition split_ws :: "string \<Rightarrow> string list" where
  "split_ws s = split_from [] s"

text \<open>
  \<open>SequenceMatcher(None, a, b).get_opcodes()\<close> belongs to \<open>difflib\<close>: the function
  that computes the opcodes is a parameter of the model.
\<close>

datatype opcode_tag = OpReplace | OpDelete | OpInsert | OpEqual

type_synonym opcode = "opcode_tag \<times> nat \<times> nat \<times> nat \<times> nat"
type_synonym differ = "string \<Rightarrow> string \<Rightarrow> opcode list"

definition slice :: "string \<Rightarrow> nat \<Rightarrow> nat \<Rightarrow> string" where
  "slice s i j = take (j - i) (drop i s)"

fun first_diff :: "(string \<times> string) list \<Rightarrow> (string \<times> string) option" where
  "first_diff [] = None"
| "first_diff ((orig_word, impr_word) # ws) =
     (if orig_word \<noteq> impr_word then Some (orig_word, impr_word) else first_diff ws)"

fun scan_opcodes :: "string \<Rightarrow> string \<Rightarrow> opcode list \<Rightarrow> string option \<times> string option" where
  "scan_opcodes original improved [] = (None, None)"
| "scan_opcodes original improved ((tag, i1, i2, j1, j2) # ops) =
     (if tag = OpReplace \<and> int i2 - int i1 > 2 \<and> int j2 - int j1 > 2 then
        (let orig_segment = strip (slice original i1 i2);
             impr_segment = strip (slice improved j1 j2)
         in if orig_segment \<noteq> [] \<and> impr_segment \<noteq> []
            then (Some (re_escape orig_segment), Some impr_segment)
            else scan_opcodes original improved ops)
      else scan_opcodes original improved ops)"

definition detect_improvement_pattern ::
  "differ \<Rightarrow> string \<Rightarrow> string \<Rightarrow> string option \<times> string option" where
  "detect_improvement_pattern get_opcodes original improved =
     (let original_words = split_ws original; improved_words = split_ws improved
      in case (if length original_words = length improved_words
               then first_diff (zip original_words improved_words) else None) of
           Some (orig_word, impr_word) \<Rightarrow> (Some (word_bounded orig_word), Some impr_word)
         | None \<Rightarrow> scan_opcodes original improved (get_opcodes original improved))"


text \<open>
  The groups by detected pattern, a \<open>defaultdict(list)\<close> in insertion order, and
  \<open>Counter(...).most_common(1)\<close>, whose result is the first of the most frequent
  values.
\<close>

fun group_add :: "string \<Rightarrow> LearningCandidate \<Rightarrow> (string \<times> LearningCandidate list) list
    \<Rightarrow> (string \<times> LearningCandidate list) list" where
  "group_add p c [] = [(p, [c])]"
| "group_add p c ((q, cs) # gs) =
     (if q = p then (q, cs @ [c]) # gs else (q, cs) # group_add p c gs)"

definition pattern_groups :: "LearningCandidate list \<Rightarrow> (string \<times> LearningCandidate list) list" where
  "pattern_groups cands =
     foldl (\<lambda>gs c. case detected_pattern c of
                       Some p \<Rightarrow> if p \<noteq> [] then group_add p c gs else gs
                     | None \<Rightarrow> gs) [] cands"

fun counter_add :: "string \<Rightarrow> (string \<times> nat) list \<Rightarrow> (string \<times> nat) list" where
  "counter_add x [] = [(x, 1)]"
| "counter_add x ((y, n) # cnt) =
     (if y = x then (y, n + 1) # cnt else (y, n) # counter_add x cnt)"

definition counter :: "string list \<Rightarrow> (string \<times> nat) list" where
  "counter xs = foldl (\<lambda>cnt x. counter_add x cnt) [] xs"

fun most_common_from :: "(string \<times> nat) \<Rightarrow> (string \<times> nat) list \<Rightarrow> string \<times> nat" where
  "most_common_from best [] = best"
| "most_common_from best ((x, n) # cnt) =
     (if snd best < n then most_common_from (x, n) cnt else most_common_from best cnt)"

definition most_common :: "(string \<times> nat) list \<Rightarrow> string option" where
  "most_common cnt = (case cnt of [] \<Rightarrow> None | b # rest \<Rightarrow> Some (fst (most_common_from b rest)))"

definition replacements_of :: "LearningCandidate list \<Rightarrow> string list" where
  "replacements_of cands =
     concat (map (\<lambda>c. case suggested_replacement c of
                         Some r \<Rightarrow> if r \<noteq> [] then [r] else []
                       | None \<Rightarrow> []) cands)"

definition total_frequency :: "LearningCandidate list \<Rightarrow> int" where
  "total_frequency cands = sum_list (map frequency cands)"

text \<open>The quotient of the source; it is taken only where the total is not zero.\<close>

definition weighted_confidence :: "LearningCandidate list \<Rightarrow> real" where
  "weighted_confidence cands =
     sum_list (map (\<lambda>c. cand_confidence c * real_of_int (frequency c)) cands)
       / real_of_int (total_frequency cands)"

definition str_of_int :: "int \<Rightarrow> string" where
  "str_of_int i = (if i < 0 then ''-'' @ str_of_nat (nat (- i)) else str_of_nat (nat i))"

fun join :: "string \<Rightarrow> string list \<Rightarrow> string" where
  "join sep [] = []"
| "join sep [x] = x"
| "join sep (x # y # xs) = x @ sep @ join sep (y # xs)"

text \<open>
  \<open>_create_learned_rule\<close>. \<open>now\<close> is the reading of the clock. The sources of the
  description come from a Python set, whose order is not fixed; they are listed
  here in the order of their first occurrence.
\<close>

definition learned_description :: "LearningCandidate list \<Rightarrow> string" where
  "learned_description cands =
     ''R'' @ [CHR 0xC3, CHR 0xA8] @ ''gle apprise automatiquement (sources: ''
     @ join '', '' (remdups (map improvement_source cands))
     @ '', fr'' @ [CHR 0xC3, CHR 0xA9] @ ''quence: '' @ str_of_int (total_frequency cands) @ '')''"

definition create_learned_rule ::
  "string \<Rightarrow> bool \<Rightarrow> DynamicRulesManager \<Rightarrow> string \<Rightarrow> string \<Rightarrow> LearningCandidate list
     \<Rightarrow> py_error + DynamicRulesManager" where
  "create_learned_rule now io_ok st pat repl cands =
     (let stg = ''post_translation'';
          rule_name = ''learned_'' @ str_of_nat (length (learned_rules st stg)) @ ''_'' @ now
      in if total_frequency cands = 0 then Inl ZeroDivisionError
         else
           (let rule = \<lparr>name = rule_name, pattern = pat, replacement = repl,
                        description = learned_description cands, stage = stg,
                        confidence = weighted_confidence cands, usage_count = 0,
                        success_rate = 1, created_at = Some now, mod_specific = None\<rparr>;
                st1 = st\<lparr>learned_rules := (learned_rules st)(stg := learned_rules st stg @ [rule])\<rparr>;
                st2 = st1\<lparr>learning_candidates :=
                            foldl (\<lambda>cs c. remove1 c cs) (learning_candidates st1) cands\<rparr>
            in Inr (snd (save_learned_rules io_ok st2))))"

fun evaluate_groups ::
  "string \<Rightarrow> bool \<Rightarrow> (string \<times> LearningCandidate list) list \<Rightarrow> DynamicRulesManager
     \<Rightarrow> py_error + DynamicRulesManager" where
  "evaluate_groups now io_ok [] st = Inr st"
| "evaluate_groups now io_ok ((pat, cands) # gs) st =
     (if total_frequency cands = 0 then Inl ZeroDivisionError
      else if min_frequency_for_pattern (learning_config st) \<le> total_frequency cands
              \<and> confidence_threshold (learning_config st) \<le> weighted_confidence cands
      then (case most_common (counter (replacements_of cands)) of
              None \<Rightarrow> evaluate_groups now io_ok gs st
            | Some most_common_replacement \<Rightarrow>
                (case create_learned_rule now io_ok st pat most_common_replacement cands of
                   Inl e \<Rightarrow> Inl e
                 | Inr st' \<Rightarrow> evaluate_groups now io_ok gs st'))
      else evaluate_groups now io_ok gs st)"

definition evaluate_learning_candidates ::
  "string \<Rightarrow> bool \<Rightarrow> DynamicRulesManager \<Rightarrow> py_error + DynamicRulesManager" where
  "evaluate_learning_candidates now io_ok st =
     (if learning_candidates st = [] then Inr st
      else evaluate_groups now io_ok (pattern_groups (learning_candidates st)) st)"

text \<open>\<open>learn_from_llm_improvement\<close> of \<open>DynamicRulesManager\<close>.\<close>

fun bump_duplicate ::
  "string \<Rightarrow> string \<Rightarrow> real \<Rightarrow> LearningCandidate list \<Rightarrow> LearningCandidate list option" where
  "bump_duplicate src orig conf [] = None"
| "bump_duplicate src orig conf (c # cs) =
     (if source_text c = src \<and> original_translation c = orig
      then Some (c\<lparr>frequency := frequency c + 1,
                   cand_confidence := max (cand_confidence c) conf\<rparr> # cs)
      else map_option (Cons c) (bump_duplicate src orig conf cs))"

definition learn_from_llm_improvement ::
  "differ \<Rightarrow> string \<Rightarrow> bool \<Rightarrow> DynamicRulesManager \<Rightarrow> string \<Rightarrow> string \<Rightarrow> string \<Rightarrow> real
     \<Rightarrow> py_error + (bool \<times> DynamicRulesManager)" where
  "learn_from_llm_improvement get_opcodes now io_ok st src orig improved conf =
     (if \<not> enabled (learning_config st) then Inr (False, st)
      else case bump_duplicate src orig conf (learning_candidates st) of
          Some cs \<Rightarrow> Inr (True, st\<lparr>learning_candidates := cs\<rparr>)
        | None \<Rightarrow>
            (let (dp, sr) = detect_improvement_pattern get_opcodes orig improved;
                 candidate = \<lparr>source_text = src, original_translation = orig,
                              improved_translation = improved, improvement_source = ''llm'',
                              cand_confidence = conf, frequency = 1, detected_pattern = dp,
                              suggested_replacement = sr\<rparr>;
                 st1 = st\<lparr>learning_candidates := learning_candidates st @ [candidate]\<rparr>
             in if confidence_threshold (learning_config st1) \<le> conf
                   \<and> auto_improve (learning_config st1)
                then (case evaluate_learning_candidates now io_ok st1 of
                        Inl e \<Rightarrow> Inl e
                      | Inr st2 \<Rightarrow> Inr (True, st2))
                else Inr (True, st1)))"

text \<open>
  \<open>learn_from_llm_improvement\<close> of \<open>glossary_manager.py\<close> opens with the test that
  the manager's function of the same name lacks.
\<close>

definition glossary_rejects_observation :: "string \<Rightarrow> string \<Rightarrow> bool" where
  "glossary_rejects_observation deepl_translation llm_improvement =
     (deepl_translation = llm_improvement \<or> length (strip llm_improvement) = 0)"




section \<open>DynamicRulesManager: review\<close>





section \<open>Example inputs\<close>

definition demo_translator :: DeepLTranslator where
  "demo_translator =
     \<lparr>config = \<lparr>source_lang = ''EN'', target_lang = ''FR'', use_llm_optimization = False,
                 emit_loca_files = False, clear_cache = False, parallel_translation = True,
                 max_workers = 4\<rparr>,
      rule_engine = [''pre_translation'' \<mapsto> [(''Deal'', ''Inflict'')],
                     ''post_translation'' \<mapsto> [], ''final_cleanup'' \<mapsto> []],
      glossary_manager = None,
      cache = \<lparr>cache_map = Map.empty, hits = 0, misses = 0\<rparr>\<rparr>"

definition failing_mt :: mt_service where
  "failing_mt text src tgt = Inl TranslationError"


text \<open>The learning configuration set by \<open>__init__\<close>.\<close>

definition default_config :: LearningConfig where
  "default_config =
     \<lparr>enabled = True, auto_improve = True, confidence_threshold = 0.8, max_learned_rules = 100,
      min_frequency_for_pattern = 3, similarity_threshold = 0.9\<rparr>"




definition empty_manager :: DynamicRulesManager where
  "empty_manager =
     \<lparr>base_rules = (\<lambda>stg. []), learned_rules = (\<lambda>stg. []), mod_specific_rules = Map.empty,
      learning_candidates = [], learning_config = default_config, learned_rules_file = None\<rparr>"







section \<open>Properties of the text pipeline\<close>

lemmas text_eval =
  DICE_PATTERN_def dice_match_at_def dice_modifier_def boundary_after_def
  is_digit_def is_word_def is_space_def protect_expressions_def placeholder_def
  digit_char_def str_replace_def normalize_whitespace_def clean_encoding_def
  ENCODING_FIXES_def strip_def collapse_ws_def

lemmas engine_eval =
  re_sub_literal_def re_meta_def is_alnum_def lower_def word_bounded_def re_escape_def
  re_special_def

lemma pre_translation_text_cache [simp]:
  "pre_translation_text re (self\<lparr>cache := c\<rparr>) cleaned = pre_translation_text re self cleaned"
  by (simp add: pre_translation_text_def)

text \<open>
  C1. When the machine-translation call made by \<open>process_text\<close> raises, the result
  is the original input string, whatever the rules, the glossary and the cache
  are. The call is made when the cache holds no non-empty value for the key and
  the steps before it did not raise; \<open>pre\<close> is the text it receives.
\<close>

theorem process_text_translation_failure:
  assumes "fst (cache_get (cache self)
             (cache_key_of self (normalize_whitespace (clean_encoding text)))) \<in> {None, Some []}"
    and "pre_translation_text re self (normalize_whitespace (clean_encoding text)) = Inr pre"
    and "mt pre (source_lang (config self)) (target_lang (config self)) = Inl e"
  shows "fst (process_text re mt post self text openrouter_key) = text"
  using assms
  by (auto simp add: process_text_def translate_body_def Let_def split: prod.splits option.splits sum.splits)

theorem process_text_translation_failure_witness:
  "fst (cache_get (cache demo_translator)
          (cache_key_of demo_translator (normalize_whitespace (clean_encoding ''Deal  2d6 damage''))))
     \<in> {None, Some []}
   \<and> pre_translation_text re_sub_literal demo_translator
         (normalize_whitespace (clean_encoding ''Deal  2d6 damage''))
       = Inr ''Inflict __PROTECTED_0_0__ damage''
   \<and> failing_mt ''Inflict __PROTECTED_0_0__ damage'' (source_lang (config demo_translator))
         (target_lang (config demo_translator)) = Inl TranslationError
   \<and> fst (process_text re_sub_literal failing_mt (\<lambda>s t k. None) demo_translator
            ''Deal  2d6 damage'' None) = ''Deal  2d6 damage''"
proof -
  have h1: "fst (cache_get (cache demo_translator)
          (cache_key_of demo_translator (normalize_whitespace (clean_encoding ''Deal  2d6 damage''))))
     \<in> {None, Some []}"
    by (simp add: cache_get_def demo_translator_def)
  have h2: "pre_translation_text re_sub_literal demo_translator
         (normalize_whitespace (clean_encoding ''Deal  2d6 damage''))
       = Inr ''Inflict __PROTECTED_0_0__ damage''"
    by (simp add: pre_translation_text_def demo_translator_def RuleEngine_apply_rules_def
          text_eval engine_eval)
  have h3: "failing_mt ''Inflict __PROTECTED_0_0__ damage'' (source_lang (config demo_translator))
         (target_lang (config demo_translator)) = Inl TranslationError"
    by (simp add: failing_mt_def)
  show ?thesis
    using process_text_translation_failure
      [where mt = failing_mt and post = "\<lambda>s t k. None" and openrouter_key = None, OF h1 h2 h3]
      h1 h2 h3 by simp
qed

text \<open>
  C8. On a text with two occurrences of the same dice expression,
  \<open>protect_expressions\<close> records one protection entry per occurrence, but the first
  replacement rewrites every occurrence: both places of the masked text carry the
  placeholder of the first match, and the placeholder of the second match is not
  in the masked text.
\<close>

theorem protect_repeated_match_shares_placeholder:
  "protect_expressions ''2d6 and 2d6'' [DICE_PATTERN] =
     (''__PROTECTED_0_0__ and __PROTECTED_0_0__'',
      [(''__PROTECTED_0_0__'', ''2d6''), (''__PROTECTED_0_1__'', ''2d6'')])"
  by (simp add: text_eval)

section \<open>Properties of the rule manager\<close>

lemma update_at_length [simp]: "length (update_at i f xs) = length xs"
  by (induction i f xs rule: update_at.induct) simp_all

lemma same_identity_refl [simp]: "same_identity r r"
  by (simp add: same_identity_def)


lemma same_identity_bump [simp]: "same_identity r (bump_usage r)"
  by (simp add: same_identity_def bump_usage_def)

lemma same_identity_penalize [simp]: "same_identity r (penalize r)"
  by (simp add: same_identity_def penalize_def)


lemma rules_frame_refl [simp]: "rules_frame st st"
  by (simp add: rules_frame_def list_all2_refl option.rel_refl)








lemma nth_opt_simps [simp]:
  "nth_opt [] i = None"
  "nth_opt (x # xs) 0 = Some x"
  "nth_opt (x # xs) (Suc k) = nth_opt xs k"
  by (simp_all add: nth_opt_def)















section \<open>Properties of learning and of the glossary\<close>

lemma scan_opcodes_empty_improved: "scan_opcodes original [] ops = (None, None)"
  by (induction ops) (auto simp: slice_def strip_def)

lemma detect_empty_improved:
  "split_ws original \<noteq> [] \<Longrightarrow> detect_improvement_pattern get_opcodes original [] = (None, None)"
  by (simp add: detect_improvement_pattern_def split_ws_def scan_opcodes_empty_improved)

lemma first_diff_same: "first_diff (zip ws ws) = None"
  by (induction ws) simp_all

lemma evaluate_single_candidate:
  assumes "learning_candidates st = [c]" and "frequency c = 1"
    and "min_frequency_for_pattern (learning_config st) = 3"
  shows "evaluate_learning_candidates now io_ok st = Inr st"
  using assms
  by (auto simp: evaluate_learning_candidates_def pattern_groups_def total_frequency_def
        split: option.splits)

text \<open>
  C5. With learning enabled, \<open>learn_from_llm_improvement\<close> of the rule manager
  accepts an observation whose refined translation equals the baseline, and one
  whose refined translation is empty: it returns \<open>True\<close> and appends a learning
  candidate, for every opcode function.
\<close>

theorem learn_accepts_noop_observations:
  "(\<exists>dp sr. learn_from_llm_improvement get_opcodes now io_ok empty_manager
        ''Attack'' ''Attaque'' ''Attaque'' 0.8
      = Inr (True, empty_manager\<lparr>learning_candidates :=
          [\<lparr>source_text = ''Attack'', original_translation = ''Attaque'',
            improved_translation = ''Attaque'', improvement_source = ''llm'',
            cand_confidence = 0.8, frequency = 1, detected_pattern = dp,
            suggested_replacement = sr\<rparr>]\<rparr>))
   \<and> learn_from_llm_improvement get_opcodes now io_ok empty_manager
        ''Attack'' ''Attaque'' [] 0.8
      = Inr (True, empty_manager\<lparr>learning_candidates :=
          [\<lparr>source_text = ''Attack'', original_translation = ''Attaque'',
            improved_translation = [], improvement_source = ''llm'',
            cand_confidence = 0.8, frequency = 1, detected_pattern = None,
            suggested_replacement = None\<rparr>]\<rparr>)"
proof
  obtain dp sr where d: "detect_improvement_pattern get_opcodes ''Attaque'' ''Attaque'' = (dp, sr)"
    by (cases "detect_improvement_pattern get_opcodes ''Attaque'' ''Attaque''")
  let ?c = "\<lparr>source_text = ''Attack'', original_translation = ''Attaque'',
            improved_translation = ''Attaque'', improvement_source = ''llm'',
            cand_confidence = 0.8, frequency = 1, detected_pattern = dp,
            suggested_replacement = sr\<rparr>"
  have e: "evaluate_learning_candidates now io_ok (empty_manager\<lparr>learning_candidates := [?c]\<rparr>)
             = Inr (empty_manager\<lparr>learning_candidates := [?c]\<rparr>)"
    by (rule evaluate_single_candidate [where c = ?c])
       (simp_all add: empty_manager_def default_config_def)
  have "learn_from_llm_improvement get_opcodes now io_ok empty_manager
        ''Attack'' ''Attaque'' ''Attaque'' 0.8 = Inr (True, empty_manager\<lparr>learning_candidates := [?c]\<rparr>)"
    using d e
    by (simp add: learn_from_llm_improvement_def)
       (simp add: empty_manager_def default_config_def)
  then show "\<exists>dp sr. learn_from_llm_improvement get_opcodes now io_ok empty_manager
        ''Attack'' ''Attaque'' ''Attaque'' 0.8
      = Inr (True, empty_manager\<lparr>learning_candidates :=
          [\<lparr>source_text = ''Attack'', original_translation = ''Attaque'',
            improved_translation = ''Attaque'', improvement_source = ''llm'',
            cand_confidence = 0.8, frequency = 1, detected_pattern = dp,
            suggested_replacement = sr\<rparr>]\<rparr>)"
    by blast
next
  have d: "detect_improvement_pattern get_opcodes ''Attaque'' [] = (None, None)"
    by (rule detect_empty_improved) (simp add: split_ws_def is_space_def)
  let ?c = "\<lparr>source_text = ''Attack'', original_translation = ''Attaque'',
            improved_translation = [], improvement_source = ''llm'',
            cand_confidence = 0.8, frequency = 1, detected_pattern = None,
            suggested_replacement = None\<rparr>"
  have e: "evaluate_learning_candidates now io_ok (empty_manager\<lparr>learning_candidates := [?c]\<rparr>)
             = Inr (empty_manager\<lparr>learning_candidates := [?c]\<rparr>)"
    by (rule evaluate_single_candidate [where c = ?c])
       (simp_all add: empty_manager_def default_config_def)
  show "learn_from_llm_improvement get_opcodes now io_ok empty_manager
        ''Attack'' ''Attaque'' [] 0.8 = Inr (True, empty_manager\<lparr>learning_candidates := [?c]\<rparr>)"
    using d e
    by (simp add: learn_from_llm_improvement_def)
       (simp add: empty_manager_def default_config_def)
qed

text \<open>
  C7. With an instance of \<open>GlossaryManager\<close> as glossary manager, \<open>_apply_glossary\<close>
  returns its input: the instance has no \<open>get_glossary\<close>. The function
  \<open>get_glossary\<close> itself puts the longer term first, and a glossary object that
  exposes it gives the substitution of the longer term.
\<close>

theorem glossary_manager_instance_is_not_applied:
  "apply_glossary re_sub_literal GlossaryManager ''Heavy Armor wearers''
     = Inr ''Heavy Armor wearers''
   \<and> get_glossary [(''Armor'', ''Armure''), (''Heavy Armor'', ''Armure lourde'')]
     = [(''Heavy Armor'', ''Armure lourde''), (''Armor'', ''Armure'')]
   \<and> apply_glossary re_sub_literal
        (GlossaryProvider (get_glossary [(''Armor'', ''Armure''), (''Heavy Armor'', ''Armure lourde'')]))
        ''Heavy Armor wearers'' = Inr ''Armure lourde wearers''"
proof -
  have g: "get_glossary [(''Armor'', ''Armure''), (''Heavy Armor'', ''Armure lourde'')]
     = [(''Heavy Armor'', ''Armure lourde''), (''Armor'', ''Armure'')]"
    by (simp add: get_glossary_def py_len_def)
  have a: "re_sub_literal (word_bounded ''Heavy Armor'') ''Armure lourde'' ''Heavy Armor wearers''
             = Inr ''Armure lourde wearers''"
    by (simp add: engine_eval is_word_def)
  have b: "re_sub_literal (word_bounded ''Armor'') ''Armure'' ''Armure lourde wearers''
             = Inr ''Armure lourde wearers''"
    by (simp add: engine_eval is_word_def)
  show ?thesis
    by (simp add: apply_glossary_def get_glossary_attr_def g a b)
qed

section \<open>Properties of the review import\<close>







section \<open>Properties of the promotion of candidates\<close>






















end
